theory Spec2Isabelle
  imports Main "HOL-Library.Word"
begin

section \<open>Error values\<close>

text \<open>
  The program of \<^verbatim>\<open>main.go\<close> builds and inspects Go error values. A Go error is an
  interface value: a dynamic type together with a value of that type. Every error type
  that occurs in this program is a pointer type, so the value is an address, and the
  operator \<^verbatim>\<open>==\<close> on two errors holds when the dynamic types agree and the addresses
  are the same.

  An error is modelled by a constructor for its dynamic type, carrying the address and
  the (immutable) contents of the object the address points to. Values taken from one
  heap have one content per address, so HOL equality on \<open>error\<close> is Go's \<^verbatim>\<open>==\<close>.
  The nil error is \<open>None\<close> of \<open>error option\<close>.
\<close>

type_synonym addr = nat

text \<open>\<^verbatim>\<open>type NotFoundError struct { Item string }\<close>\<close>

record NotFoundError =
  Item :: string

datatype error =
    ErrorString addr string
  | PtrNotFoundError addr NotFoundError
  | WrapError addr string "error option"
  | WrapErrors addr string "error list"
  | Foreign addr string

text \<open>
  \<^item> \<open>ErrorString a s\<close> is the \<^verbatim>\<open>*errors.errorString\<close> that \<^verbatim>\<open>errors.New(s)\<close> returns;
  \<^item> \<open>PtrNotFoundError a e\<close> is a \<^verbatim>\<open>*NotFoundError\<close>;
  \<^item> \<open>WrapError a msg err\<close> is the \<^verbatim>\<open>*fmt.wrapError\<close> of an \<^verbatim>\<open>Errorf\<close> with one \<^verbatim>\<open>%w\<close>
    (its field \<open>err\<close> is nil when the operand was);
  \<^item> \<open>WrapErrors a msg errs\<close> is the \<^verbatim>\<open>*fmt.wrapErrors\<close> of an \<^verbatim>\<open>Errorf\<close> with several;
  \<^item> \<open>Foreign a msg\<close> is an error made by the operating-system layer (package \<^verbatim>\<open>os\<close>);
    the program only renders and wraps such an error, so the model keeps its address
    and its rendered text.
\<close>

text \<open>\<^verbatim>\<open>func (e *NotFoundError) Error() string { return fmt.Sprintf("%s not found", e.Item) }\<close>\<close>

definition NotFoundError_Error :: "NotFoundError \<Rightarrow> string" where
  "NotFoundError_Error e = Item e @ '' not found''"

text \<open>The method \<^verbatim>\<open>Error()\<close> of each dynamic type.\<close>

fun Error :: "error \<Rightarrow> string" where
  "Error (ErrorString a s) = s"
| "Error (PtrNotFoundError a e) = NotFoundError_Error e"
| "Error (WrapError a msg err) = msg"
| "Error (WrapErrors a msg errs) = msg"
| "Error (Foreign a msg) = msg"

subsection \<open>Package \<^verbatim>\<open>errors\<close>\<close>

text \<open>
  Allocation is explicit: a function that allocates takes the next free address and
  returns the one after it. \<^verbatim>\<open>errors.New\<close> returns a fresh pointer at every call.
\<close>

definition errors_New :: "string \<Rightarrow> addr \<Rightarrow> error \<times> addr" where
  "errors_New text h = (ErrorString h text, Suc h)"

text \<open>
  \<^verbatim>\<open>errors.Is(err, target)\<close>: with a nil operand the result is \<^verbatim>\<open>err == target\<close>; otherwise
  the tree of \<open>err\<close> is walked depth first, parent before children: a node equal to the
  target answers true, a \<^verbatim>\<open>*wrapError\<close> continues with its \<^verbatim>\<open>Unwrap() error\<close>, a
  \<^verbatim>\<open>*wrapErrors\<close> tries each element of its \<^verbatim>\<open>Unwrap() []error\<close> in order, any other
  node answers false. No error type of this program has an \<^verbatim>\<open>Is\<close> or \<^verbatim>\<open>As\<close> method.
\<close>

fun is_chain :: "error \<Rightarrow> error \<Rightarrow> bool"
  and is_any :: "error list \<Rightarrow> error \<Rightarrow> bool" where
  "is_chain (WrapError a msg (Some err)) target =
     (if WrapError a msg (Some err) = target then True else is_chain err target)"
| "is_chain (WrapError a msg None) target = (WrapError a msg None = target)"
| "is_chain (WrapErrors a msg errs) target =
     (if WrapErrors a msg errs = target then True else is_any errs target)"
| "is_chain (ErrorString a s) target = (ErrorString a s = target)"
| "is_chain (PtrNotFoundError a e) target = (PtrNotFoundError a e = target)"
| "is_chain (Foreign a msg) target = (Foreign a msg = target)"
| "is_any [] target = False"
| "is_any (e # es) target = (if is_chain e target then True else is_any es target)"

definition errors_Is :: "error option \<Rightarrow> error option \<Rightarrow> bool" where
  "errors_Is err target =
     (case (err, target) of
        (Some e, Some t) \<Rightarrow> is_chain e t
      | _ \<Rightarrow> err = target)"

text \<open>
  \<^verbatim>\<open>errors.Unwrap(err)\<close> calls the method \<^verbatim>\<open>Unwrap() error\<close> when the type has one; of
  the types here only \<^verbatim>\<open>*wrapError\<close> has. \<open>Unwrap_errs\<close> is the method
  \<^verbatim>\<open>Unwrap() []error\<close> of \<^verbatim>\<open>*wrapErrors\<close>.
\<close>

fun errors_Unwrap :: "error \<Rightarrow> error option" where
  "errors_Unwrap (WrapError a msg err) = err"
| "errors_Unwrap e = None"

fun Unwrap_errs :: "error \<Rightarrow> error list" where
  "Unwrap_errs (WrapErrors a msg errs) = errs"
| "Unwrap_errs e = []"

text \<open>
  The order in which \<^verbatim>\<open>errors.Is\<close> and \<^verbatim>\<open>errors.As\<close> visit the tree of an error: the
  error itself, then what it wraps, the elements of a \<^verbatim>\<open>[]error\<close> from first to last.
\<close>

fun traversal :: "error \<Rightarrow> error list"
  and traversal_list :: "error list \<Rightarrow> error list" where
  "traversal (WrapError a msg (Some err)) = WrapError a msg (Some err) # traversal err"
| "traversal (WrapError a msg None) = [WrapError a msg None]"
| "traversal (WrapErrors a msg errs) = WrapErrors a msg errs # traversal_list errs"
| "traversal (ErrorString a s) = [ErrorString a s]"
| "traversal (PtrNotFoundError a e) = [PtrNotFoundError a e]"
| "traversal (Foreign a msg) = [Foreign a msg]"
| "traversal_list [] = []"
| "traversal_list (e # es) = traversal e @ traversal_list es"

text \<open>
  \<^verbatim>\<open>errors.As(err, &notFound)\<close> with \<^verbatim>\<open>var notFound *NotFoundError\<close>: the first error of the
  walk whose dynamic type is \<^verbatim>\<open>*NotFoundError\<close> is stored in \<^verbatim>\<open>notFound\<close> and the call
  answers true; the result here is the pointer stored (its address and the struct it
  points to), \<open>None\<close> when the call answers false. A nil \<open>err\<close> answers false.
\<close>

fun as_NotFoundError :: "error \<Rightarrow> (addr \<times> NotFoundError) option"
  and as_NotFoundError_any :: "error list \<Rightarrow> (addr \<times> NotFoundError) option" where
  "as_NotFoundError (PtrNotFoundError a e) = Some (a, e)"
| "as_NotFoundError (WrapError a msg (Some err)) = as_NotFoundError err"
| "as_NotFoundError (WrapError a msg None) = None"
| "as_NotFoundError (WrapErrors a msg errs) = as_NotFoundError_any errs"
| "as_NotFoundError (ErrorString a s) = None"
| "as_NotFoundError (Foreign a msg) = None"
| "as_NotFoundError_any [] = None"
| "as_NotFoundError_any (e # es) =
     (case as_NotFoundError e of
        Some p \<Rightarrow> Some p
      | None \<Rightarrow> as_NotFoundError_any es)"

definition errors_As_NotFoundError :: "error option \<Rightarrow> (addr \<times> NotFoundError) option" where
  "errors_As_NotFoundError err =
     (case err of
        None \<Rightarrow> None
      | Some e \<Rightarrow> as_NotFoundError e)"

text \<open>The type assertion \<^verbatim>\<open>err.(*NotFoundError)\<close> looks at the dynamic type of \<open>err\<close> only.\<close>

fun assert_NotFoundError :: "error option \<Rightarrow> (addr \<times> NotFoundError) option" where
  "assert_NotFoundError (Some (PtrNotFoundError a e)) = Some (a, e)"
| "assert_NotFoundError err = None"

subsection \<open>Package \<^verbatim>\<open>fmt\<close>\<close>

text \<open>
  \<^verbatim>\<open>fmt.Errorf(format, a...)\<close> on the formats of this program: literal text and the verbs
  \<^verbatim>\<open>%w\<close>, \<^verbatim>\<open>%v\<close> and \<^verbatim>\<open>%s\<close>, each consuming the next operand, every operand an error
  (possibly nil). \<open>doPrintf\<close> returns the text and the positions of the operands that a
  \<^verbatim>\<open>%w\<close> consumed. An error operand prints as its \<^verbatim>\<open>Error()\<close> under all three verbs; a
  nil operand prints as \<^verbatim>\<open><nil>\<close> under \<^verbatim>\<open>%v\<close> and as a bad verb otherwise; a verb with
  no operand left prints \<^verbatim>\<open>%!verb(MISSING)\<close>. In every call of this program the operands
  are exactly as many as the verbs.
\<close>

definition is_verb :: "char \<Rightarrow> bool" where
  "is_verb c = (c = CHR ''w'' \<or> c = CHR ''v'' \<or> c = CHR ''s'')"

definition printArg :: "error option \<Rightarrow> char \<Rightarrow> string" where
  "printArg arg verb =
     (case arg of
        Some e \<Rightarrow> Error e
      | None \<Rightarrow> if verb = CHR ''v'' then ''<nil>'' else ''%!'' @ [verb] @ ''(<nil>)'')"

fun doPrintf :: "string \<Rightarrow> error option list \<Rightarrow> nat \<Rightarrow> string \<times> nat list" where
  "doPrintf (c # verb # format) a argNum =
     (if c = CHR ''%'' \<and> is_verb verb then
        (if length a \<le> argNum then
           (let (s, wrappedErrs) = doPrintf format a argNum
            in (''%!'' @ [verb] @ ''(MISSING)'' @ s, wrappedErrs))
         else
           (let (s, wrappedErrs) = doPrintf format a (Suc argNum)
            in (printArg (a ! argNum) verb @ s,
                if verb = CHR ''w'' then argNum # wrappedErrs
                else wrappedErrs)))
      else
        (let (s, wrappedErrs) = doPrintf (verb # format) a argNum
         in (c # s, wrappedErrs)))"
| "doPrintf format a argNum = (format, [])"

text \<open>
  No \<^verbatim>\<open>%w\<close>: the result is \<^verbatim>\<open>errors.New(s)\<close>, the operands survive as text only. One
  \<^verbatim>\<open>%w\<close>: a \<^verbatim>\<open>*wrapError\<close> holding that operand. Several: a \<^verbatim>\<open>*wrapErrors\<close> holding
  the non-nil operands in the order of their positions.
\<close>

fun wrapped_operands :: "error option list \<Rightarrow> nat list \<Rightarrow> error list" where
  "wrapped_operands a [] = []"
| "wrapped_operands a (argNum # rest) =
     (case a ! argNum of
        Some e \<Rightarrow> e # wrapped_operands a rest
      | None \<Rightarrow> wrapped_operands a rest)"

definition fmt_Errorf :: "string \<Rightarrow> error option list \<Rightarrow> addr \<Rightarrow> error \<times> addr" where
  "fmt_Errorf format a h =
     (let (s, wrappedErrs) = doPrintf format a 0
      in case wrappedErrs of
           [] \<Rightarrow> errors_New s h
         | [argNum] \<Rightarrow> (WrapError h s (a ! argNum), Suc h)
         | _ \<Rightarrow> (WrapErrors h s (wrapped_operands a wrappedErrs), Suc h))"

subsection \<open>Package \<^verbatim>\<open>strings\<close>\<close>

fun strings_HasPrefix :: "string \<Rightarrow> string \<Rightarrow> bool" where
  "strings_HasPrefix s [] = True"
| "strings_HasPrefix [] (p # ps) = False"
| "strings_HasPrefix (c # s) (p # ps) = (c = p \<and> strings_HasPrefix s ps)"

fun strings_Contains :: "string \<Rightarrow> string \<Rightarrow> bool" where
  "strings_Contains [] substr = (substr = [])"
| "strings_Contains (c # s) substr =
     (strings_HasPrefix (c # s) substr \<or> strings_Contains s substr)"

section \<open>Sentinel errors\<close>

text \<open>
  The package-level variables are initialised once, before \<^verbatim>\<open>main\<close> runs, each by its own
  \<^verbatim>\<open>errors.New\<close>: \<^verbatim>\<open>io.EOF\<close>, \<^verbatim>\<open>sql.ErrNoRows\<close>, and the program's \<^verbatim>\<open>ErrInvalidInput\<close> and
  \<^verbatim>\<open>ErrTimeout\<close>. \<open>heap_start\<close> is the first address free after them.
\<close>

definition io_EOF :: error where
  "io_EOF = fst (errors_New ''EOF'' 0)"

definition sql_ErrNoRows :: error where
  "sql_ErrNoRows = fst (errors_New ''sql: no rows in result set'' 1)"

definition ErrInvalidInput :: error where
  "ErrInvalidInput = fst (errors_New ''invalid input'' 2)"

definition ErrTimeout :: error where
  "ErrTimeout = fst (errors_New ''operation timed out'' 3)"

definition heap_start :: addr where
  "heap_start = 4"

section \<open>Error producers\<close>

text \<open>\<^verbatim>\<open>func fetchData() error { return ErrInvalidInput }\<close>\<close>

definition fetchData :: "error option" where
  "fetchData = Some ErrInvalidInput"

text \<open>
  \<^verbatim>\<open>processData\<close> calls \<^verbatim>\<open>fetchData\<close> and, on a non-nil error, returns
  \<^verbatim>\<open>fmt.Errorf("failed to process data: %w", err)\<close>.
\<close>

definition processData :: "addr \<Rightarrow> error option \<times> addr" where
  "processData h =
     (let err = fetchData
      in if err \<noteq> None then
           (let (e, h') = fmt_Errorf ''failed to process data: %w'' [err] h
            in (Some e, h'))
         else (None, h))"

text \<open>\<^verbatim>\<open>func findItem(item string) error { return &NotFoundError{Item: item} }\<close>\<close>

definition findItem :: "string \<Rightarrow> addr \<Rightarrow> error option \<times> addr" where
  "findItem item h = (Some (PtrNotFoundError h \<lparr>Item = item\<rparr>), Suc h)"

text \<open>
  \<^verbatim>\<open>readFullBuffer(r io.Reader, buf []byte) (int, error)\<close>. A reader is its method
  \<^verbatim>\<open>Read\<close>, which takes the reader's state and the buffer and returns both as it leaves
  them, with the count and the error. The caller sees the same reader and buffer after
  \<^verbatim>\<open>readFullBuffer\<close> as after \<^verbatim>\<open>Read\<close>.
\<close>

type_synonym byte = "8 word"

type_synonym 'r Reader = "'r \<Rightarrow> byte list \<Rightarrow> ('r \<times> byte list) \<times> int \<times> error option"

definition readFullBuffer :: "'r Reader \<Rightarrow> 'r \<Rightarrow> byte list \<Rightarrow> ('r \<times> byte list) \<times> int \<times> error option" where
  "readFullBuffer Read r buf =
     (let (mem, n, err) = Read r buf
      in if err = Some io_EOF then (mem, n, None)
         else (mem, n, err))"

text \<open>\<^verbatim>\<open>func openDbErr() error { return sql.ErrNoRows }\<close>\<close>

definition openDbErr :: "error option" where
  "openDbErr = Some sql_ErrNoRows"

subsection \<open>\<^verbatim>\<open>customOperation\<close>\<close>

text \<open>
  The file system is the one input of the program. \<open>open_result\<close> is what
  \<^verbatim>\<open>os.Open("nonexistent.txt")\<close> answers: an error, or a file, given by what its first
  \<^verbatim>\<open>Read\<close> into the 100-byte buffer returns (count and error). The deferred
  \<^verbatim>\<open>file.Close()\<close> runs on every way out of the function, a panic included, and prints
  nothing.

  Calling a method on a nil interface value panics (nil pointer dereference); a call that
  may panic returns an \<open>outcome\<close>.
\<close>

datatype open_result =
    OpenFailed error
  | Opened "int \<times> error option"

datatype 'a outcome =
    Returned 'a
  | Panicked

definition call_Error :: "error option \<Rightarrow> string outcome" where
  "call_Error err =
     (case err of
        None \<Rightarrow> Panicked
      | Some e \<Rightarrow> Returned (Error e))"

definition customOperation :: "open_result \<Rightarrow> addr \<Rightarrow> error option outcome \<times> addr" where
  "customOperation fs h =
     (case fs of
        OpenFailed err \<Rightarrow>
          (let (e, h') = fmt_Errorf ''could not open file: %w'' [Some err] h
           in (Returned (Some e), h'))
      | Opened (n, err) \<Rightarrow>
          if err \<noteq> None \<and> err \<noteq> Some io_EOF then
            (let (e, h') = fmt_Errorf ''could not read file: %w'' [err] h
             in (Returned (Some e), h'))
          else
            (case call_Error err of
               Panicked \<Rightarrow> (Panicked, h)
             | Returned msg \<Rightarrow>
                 if strings_Contains msg ''permission denied'' then
                   (let (e, h') = fmt_Errorf ''permission issue: %w'' [err] h
                    in (Returned (Some e), h'))
                 else (Returned None, h)))"

section \<open>The demonstration driver\<close>

text \<open>
  \<^verbatim>\<open>main\<close> runs eight demonstrations, marked \<^verbatim>\<open>// Demo 1\<close> to \<^verbatim>\<open>// Demo 8\<close> in the source.
  Each is a function here, returning the lines it prints (a line without its newline),
  the values a later part needs, and the next free address when it allocates.
\<close>

text \<open>Demo 1: \<^verbatim>\<open>err := fetchData()\<close>, compared with \<^verbatim>\<open>==\<close> and with \<^verbatim>\<open>errors.Is\<close>.\<close>

definition demo1 :: "string list" where
  "demo1 =
     (let err = fetchData
      in (if err = Some ErrInvalidInput then [''Invalid input detected''] else []) @
         (if errors_Is err (Some ErrInvalidInput)
          then [''Invalid input detected (correctly checked)''] else []))"

text \<open>Demo 2: \<^verbatim>\<open>err = findItem("document")\<close>, a type assertion and \<^verbatim>\<open>errors.As\<close>.\<close>

definition demo2 :: "addr \<Rightarrow> string list \<times> addr" where
  "demo2 h =
     (let (err, h') = findItem ''document'' h
      in ((case assert_NotFoundError err of
             Some (p, notFoundErr) \<Rightarrow> [''Not found error: '' @ Item notFoundErr]
           | None \<Rightarrow> []) @
          (case errors_As_NotFoundError err of
             Some (p, notFound) \<Rightarrow> [''Not found error (correctly checked): '' @ Item notFound]
           | None \<Rightarrow> []),
          h'))"

text \<open>
  Demo 3: \<^verbatim>\<open>err = processData()\<close> and a \<^verbatim>\<open>switch err\<close> whose cases compare with \<^verbatim>\<open>==\<close>.
  The variable \<open>err\<close> is read again by Demo 4.
\<close>

definition demo3 :: "addr \<Rightarrow> string list \<times> error option \<times> addr" where
  "demo3 h =
     (let (err, h') = processData h
      in ((if err = Some ErrInvalidInput then [''Invalid input'']
           else if err = Some ErrTimeout then [''Timeout'']
           else [''Unknown error'']),
          err, h'))"

text \<open>Demo 4: a type switch on the \<open>err\<close> of Demo 3.\<close>

definition demo4 :: "error option \<Rightarrow> string list" where
  "demo4 err =
     (case assert_NotFoundError err of
        Some (p, e) \<Rightarrow> [''Not found: '' @ Item e]
      | None \<Rightarrow> [''Other error type''])"

text \<open>
  Demo 5: \<open>inputErr\<close>, \<open>wrappedErr\<close> and \<open>properlyWrappedErr\<close>, in this order in the
  result of \<open>demo5_errs\<close>. \<^verbatim>\<open>fmt.Println\<close> of an error prints its \<^verbatim>\<open>Error()\<close>.
\<close>

definition demo5_errs :: "addr \<Rightarrow> (error \<times> error \<times> error) \<times> addr" where
  "demo5_errs h =
     (let (inputErr, h1) = errors_New ''input validation failed'' h;
          (wrappedErr, h2) = fmt_Errorf ''operation failed: %w'' [Some inputErr] h1;
          (properlyWrappedErr, h3) = fmt_Errorf ''operation failed: %w'' [Some inputErr] h2
      in ((inputErr, wrappedErr, properlyWrappedErr), h3))"

definition demo5 :: "addr \<Rightarrow> string list \<times> addr" where
  "demo5 h =
     (let ((inputErr, wrappedErr, properlyWrappedErr), h') = demo5_errs h
      in ([Error wrappedErr, Error properlyWrappedErr], h'))"

text \<open>Demo 6: \<open>err1\<close>, \<open>err2\<close> and \<open>combinedErr\<close>.\<close>

definition demo6_errs :: "addr \<Rightarrow> (error \<times> error \<times> error) \<times> addr" where
  "demo6_errs h =
     (let (err1, h1) = errors_New ''first error'' h;
          (err2, h2) = errors_New ''second error'' h1;
          (combinedErr, h3) =
             fmt_Errorf ''multiple errors: %w and %w'' [Some err1, Some err2] h2
      in ((err1, err2, combinedErr), h3))"

definition demo6 :: "addr \<Rightarrow> string list \<times> addr" where
  "demo6 h =
     (let ((err1, err2, combinedErr), h') = demo6_errs h
      in ([Error combinedErr], h'))"

text \<open>Demo 7: \<^verbatim>\<open>if openDbErr() == sql.ErrNoRows\<close>.\<close>

definition demo7 :: "string list" where
  "demo7 = (if openDbErr = Some sql_ErrNoRows then [''No rows found''] else [])"

text \<open>
  Demo 8: \<^verbatim>\<open>if err := customOperation(); err != nil\<close>. \<^verbatim>\<open>fmt.Println\<close> puts a space between
  its two operands. A panic in \<^verbatim>\<open>customOperation\<close> is not recovered.
\<close>

definition demo8 :: "open_result \<Rightarrow> addr \<Rightarrow> string list outcome" where
  "demo8 fs h =
     (case fst (customOperation fs h) of
        Panicked \<Rightarrow> Panicked
      | Returned None \<Rightarrow> Returned []
      | Returned (Some err) \<Rightarrow> Returned [''Custom operation failed: '' @ Error err])"

text \<open>
  The demonstrations in the order of the source; the result is the lines of each
  demonstration that ran to its end, and whether the run ended in a panic.
\<close>

definition run_demos :: "open_result \<Rightarrow> string list list \<times> bool" where
  "run_demos fs =
     (let l1 = demo1;
          (l2, h2) = demo2 heap_start;
          (l3, err, h3) = demo3 h2;
          l4 = demo4 err;
          (l5, h5) = demo5 h3;
          (l6, h6) = demo6 h5;
          l7 = demo7
      in case demo8 fs h6 of
           Panicked \<Rightarrow> ([l1, l2, l3, l4, l5, l6, l7], True)
         | Returned l8 \<Rightarrow> ([l1, l2, l3, l4, l5, l6, l7, l8], False))"

text \<open>
  A run of the program: the lines on standard output and the exit status, 0 when \<^verbatim>\<open>main\<close>
  returns and 2 when the Go runtime ends the process on a panic.
\<close>

record run =
  stdout :: "string list"
  exit_status :: nat

definition main :: "open_result \<Rightarrow> run" where
  "main fs =
     (let (blocks, panicked) = run_demos fs
      in \<lparr>stdout = concat blocks, exit_status = (if panicked then 2 else 0)\<rparr>)"

text \<open>The numbers of the demonstrations that printed at least one line, in order.\<close>

fun numbered_from :: "nat \<Rightarrow> string list list \<Rightarrow> nat list" where
  "numbered_from k [] = []"
| "numbered_from k (b # bs) =
     (if b = [] then numbered_from (Suc k) bs else k # numbered_from (Suc k) bs)"

definition numbered_outcomes :: "open_result \<Rightarrow> nat list" where
  "numbered_outcomes fs = numbered_from 1 (fst (run_demos fs))"

section \<open>Evaluating the library on the formats of the program\<close>

lemma Errorf_process:
  "fmt_Errorf ''failed to process data: %w'' [err] h =
     (WrapError h (''failed to process data: '' @ printArg err CHR ''w'') err, Suc h)"
  by (simp add: fmt_Errorf_def is_verb_def)

lemma Errorf_open:
  "fmt_Errorf ''could not open file: %w'' [err] h =
     (WrapError h (''could not open file: '' @ printArg err CHR ''w'') err, Suc h)"
  by (simp add: fmt_Errorf_def is_verb_def)

lemma Errorf_read:
  "fmt_Errorf ''could not read file: %w'' [err] h =
     (WrapError h (''could not read file: '' @ printArg err CHR ''w'') err, Suc h)"
  by (simp add: fmt_Errorf_def is_verb_def)

lemma Errorf_permission:
  "fmt_Errorf ''permission issue: %w'' [err] h =
     (WrapError h (''permission issue: '' @ printArg err CHR ''w'') err, Suc h)"
  by (simp add: fmt_Errorf_def is_verb_def)

lemma Errorf_operation:
  "fmt_Errorf ''operation failed: %w'' [err] h =
     (WrapError h (''operation failed: '' @ printArg err CHR ''w'') err, Suc h)"
  by (simp add: fmt_Errorf_def is_verb_def)

lemma Errorf_multiple:
  "fmt_Errorf ''multiple errors: %w and %w'' [Some e1, Some e2] h =
     (WrapErrors h (''multiple errors: '' @ Error e1 @ '' and '' @ Error e2) [e1, e2], Suc h)"
  by (simp add: fmt_Errorf_def is_verb_def printArg_def)

lemma Errorf_operation_v:
  "fmt_Errorf ''operation failed: %v'' [Some e] h =
     (ErrorString h (''operation failed: '' @ Error e), Suc h)"
  by (simp add: fmt_Errorf_def is_verb_def printArg_def errors_New_def)

lemma EOF_no_permission_denied:
  "\<not> strings_Contains (Error io_EOF) ''permission denied''"
  by (simp add: io_EOF_def errors_New_def)

section \<open>The walk of \<^verbatim>\<open>errors.Is\<close>\<close>

text \<open>\<^verbatim>\<open>errors.Is\<close> answers true exactly for the errors that \<open>traversal\<close> lists.\<close>

lemma is_chain_traversal:
  "is_chain e t = (t \<in> set (traversal e))"
  "is_any es t = (t \<in> set (traversal_list es))"
  by (induction e t and es t rule: is_chain_is_any.induct) auto

section \<open>Values of the producers and of the demonstrations\<close>

lemma processData_value:
  "processData h =
     (Some (WrapError h ''failed to process data: invalid input'' (Some ErrInvalidInput)), Suc h)"
  by (simp add: processData_def fetchData_def Errorf_process printArg_def
      ErrInvalidInput_def errors_New_def)

lemma customOperation_OpenFailed:
  "customOperation (OpenFailed err) h =
     (Returned (Some (WrapError h (''could not open file: '' @ Error err) (Some err))), Suc h)"
  by (simp add: customOperation_def Errorf_open printArg_def)

lemma customOperation_nil:
  "customOperation (Opened (n, None)) h = (Panicked, h)"
  by (simp add: customOperation_def call_Error_def)

lemma customOperation_EOF:
  "customOperation (Opened (n, Some io_EOF)) h = (Returned None, h)"
  by (simp add: customOperation_def call_Error_def EOF_no_permission_denied)

lemma customOperation_other:
  "err \<noteq> io_EOF \<Longrightarrow>
   customOperation (Opened (n, Some err)) h =
     (Returned (Some (WrapError h (''could not read file: '' @ Error err) (Some err))), Suc h)"
  by (simp add: customOperation_def Errorf_read printArg_def)

lemma customOperation_Panicked_iff:
  "(fst (customOperation fs h) = Panicked) = (\<exists>n. fs = Opened (n, None))"
proof (cases fs)
  case (OpenFailed err)
  then show ?thesis by (simp add: customOperation_OpenFailed)
next
  case (Opened res)
  obtain n err where res: "res = (n, err)" by (cases res)
  show ?thesis
  proof (cases err)
    case None
    with Opened res show ?thesis by (simp add: customOperation_nil)
  next
    case (Some e)
    show ?thesis
    proof (cases "e = io_EOF")
      case True
      with Opened res Some show ?thesis by (simp add: customOperation_EOF)
    next
      case False
      with Opened res Some show ?thesis by (simp add: customOperation_other)
    qed
  qed
qed

lemma demo1_value:
  "demo1 = [''Invalid input detected'', ''Invalid input detected (correctly checked)'']"
  by (simp add: demo1_def fetchData_def errors_Is_def ErrInvalidInput_def errors_New_def)

lemma demo2_value:
  "demo2 h =
     ([''Not found error: document'', ''Not found error (correctly checked): document''], Suc h)"
  by (simp add: demo2_def findItem_def errors_As_NotFoundError_def)

lemma demo3_value:
  "demo3 h =
     ([''Unknown error''],
      Some (WrapError h ''failed to process data: invalid input'' (Some ErrInvalidInput)),
      Suc h)"
  by (simp add: demo3_def processData_value)
    (simp add: ErrInvalidInput_def ErrTimeout_def errors_New_def)

lemma demo4_value:
  "demo4 (Some (WrapError a msg err)) = [''Other error type'']"
  by (simp add: demo4_def)

lemma demo5_errs_value:
  "demo5_errs h =
     ((ErrorString h ''input validation failed'',
       WrapError (Suc h) ''operation failed: input validation failed''
         (Some (ErrorString h ''input validation failed'')),
       WrapError (Suc (Suc h)) ''operation failed: input validation failed''
         (Some (ErrorString h ''input validation failed''))),
      Suc (Suc (Suc h)))"
  by (simp add: demo5_errs_def errors_New_def Errorf_operation printArg_def)

lemma demo5_value:
  "demo5 h =
     ([''operation failed: input validation failed'',
       ''operation failed: input validation failed''], Suc (Suc (Suc h)))"
  by (simp add: demo5_def demo5_errs_value)

lemma demo6_errs_value:
  "demo6_errs h =
     ((ErrorString h ''first error'',
       ErrorString (Suc h) ''second error'',
       WrapErrors (Suc (Suc h)) ''multiple errors: first error and second error''
         [ErrorString h ''first error'', ErrorString (Suc h) ''second error'']),
      Suc (Suc (Suc h)))"
  by (simp add: demo6_errs_def errors_New_def Errorf_multiple)

lemma demo6_value:
  "demo6 h = ([''multiple errors: first error and second error''], Suc (Suc (Suc h)))"
  by (simp add: demo6_def demo6_errs_value)

lemma demo7_value: "demo7 = [''No rows found'']"
  by (simp add: demo7_def openDbErr_def)

lemma demo8_OpenFailed:
  "demo8 (OpenFailed err) h =
     Returned [''Custom operation failed: could not open file: '' @ Error err]"
  by (simp add: demo8_def customOperation_OpenFailed)

lemma demo8_nil: "demo8 (Opened (n, None)) h = Panicked"
  by (simp add: demo8_def customOperation_nil)

lemma demo8_EOF: "demo8 (Opened (n, Some io_EOF)) h = Returned []"
  by (simp add: demo8_def customOperation_EOF)

text \<open>
  Demos 1 to 7 do not read the file system: their lines are the same in every run, and
  Demo 8 starts with 12 as the next free address.
\<close>

lemma run_demos_value:
  "run_demos fs =
     (case demo8 fs 12 of
        Panicked \<Rightarrow>
          ([[''Invalid input detected'', ''Invalid input detected (correctly checked)''],
            [''Not found error: document'', ''Not found error (correctly checked): document''],
            [''Unknown error''],
            [''Other error type''],
            [''operation failed: input validation failed'',
             ''operation failed: input validation failed''],
            [''multiple errors: first error and second error''],
            [''No rows found'']], True)
      | Returned l8 \<Rightarrow>
          ([[''Invalid input detected'', ''Invalid input detected (correctly checked)''],
            [''Not found error: document'', ''Not found error (correctly checked): document''],
            [''Unknown error''],
            [''Other error type''],
            [''operation failed: input validation failed'',
             ''operation failed: input validation failed''],
            [''multiple errors: first error and second error''],
            [''No rows found''],
            l8], False))"
  by (cases "demo8 fs 12")
    (simp_all add: run_demos_def demo1_value demo2_value demo3_value demo4_value demo5_value
      demo6_value demo7_value heap_start_def Let_def)

section \<open>Properties of the error producers\<close>

text \<open>
  C1. \<^verbatim>\<open>fetchData\<close> produces one error, the sentinel \<^verbatim>\<open>ErrInvalidInput\<close>, and
  \<^verbatim>\<open>errors.Is\<close> against that sentinel answers true for it as returned. \<^verbatim>\<open>processData\<close>
  returns another error: a fresh \<^verbatim>\<open>*wrapError\<close> whose message is the formatted text
  \<^verbatim>\<open>failed to process data: invalid input\<close> and whose \<^verbatim>\<open>Unwrap\<close> is the sentinel; it is not
  the sentinel itself, and \<^verbatim>\<open>errors.Is\<close> against the sentinel answers true for it too.
  Demo 1 prints both of its lines.
\<close>

theorem fetchData_Is_ErrInvalidInput:
  "fetchData = Some ErrInvalidInput \<and>
   errors_Is fetchData (Some ErrInvalidInput) \<and>
   fst (processData h) =
     Some (WrapError h (''failed to process data: '' @ Error ErrInvalidInput)
       (Some ErrInvalidInput)) \<and>
   map_option Error (fst (processData h)) = Some ''failed to process data: invalid input'' \<and>
   map_option errors_Unwrap (fst (processData h)) = Some fetchData \<and>
   fst (processData h) \<noteq> fetchData \<and>
   errors_Is (fst (processData h)) (Some ErrInvalidInput) \<and>
   demo1 = [''Invalid input detected'', ''Invalid input detected (correctly checked)'']"
proof -
  have direct: "errors_Is fetchData (Some ErrInvalidInput)"
    by (simp add: fetchData_def errors_Is_def ErrInvalidInput_def errors_New_def)
  have text_of: "Error ErrInvalidInput = ''invalid input''"
    by (simp add: ErrInvalidInput_def errors_New_def)
  have val: "fst (processData h) =
      Some (WrapError h (''failed to process data: '' @ Error ErrInvalidInput)
        (Some ErrInvalidInput))"
    by (simp add: processData_value text_of)
  have msg: "map_option Error (fst (processData h)) =
      Some ''failed to process data: invalid input''"
    by (simp add: processData_value)
  have unwrap: "map_option errors_Unwrap (fst (processData h)) = Some fetchData"
    by (simp add: processData_value fetchData_def)
  have other: "fst (processData h) \<noteq> fetchData"
    by (simp add: processData_value fetchData_def) (simp add: ErrInvalidInput_def errors_New_def)
  have wrapped: "errors_Is (fst (processData h)) (Some ErrInvalidInput)"
    by (simp add: processData_value errors_Is_def)
      (simp add: ErrInvalidInput_def errors_New_def)
  show ?thesis
    using direct val msg unwrap other wrapped by (simp add: fetchData_def demo1_value)
qed

text \<open>
  C5. For every string \<open>x\<close>, \<^verbatim>\<open>errors.As\<close> with a \<^verbatim>\<open>*NotFoundError\<close> target succeeds on the
  error of \<^verbatim>\<open>findItem(x)\<close>, and the field \<^verbatim>\<open>Item\<close> of the pointer it stores is \<open>x\<close>.
\<close>

theorem findItem_As_recovers_Item:
  "errors_As_NotFoundError (fst (findItem x h)) = Some (h, \<lparr>Item = x\<rparr>) \<and>
   map_option (\<lambda>(p, notFound). Item notFound)
     (errors_As_NotFoundError (fst (findItem x h))) = Some x"
  by (simp add: findItem_def errors_As_NotFoundError_def)

text \<open>
  C6. Whatever the reader and the buffer: when \<^verbatim>\<open>Read\<close> reports \<^verbatim>\<open>io.EOF\<close>,
  \<^verbatim>\<open>readFullBuffer\<close> returns the count with a nil error; on any other result it returns
  the count and the error of \<^verbatim>\<open>Read\<close> unchanged. So a nil error comes back only when
  \<^verbatim>\<open>Read\<close> reported nil or \<^verbatim>\<open>io.EOF\<close>: no other failure is dropped.
\<close>

theorem readFullBuffer_EOF_is_nil:
  assumes "Read r buf = (mem, n, err)"
  shows "(err = Some io_EOF \<longrightarrow> readFullBuffer Read r buf = (mem, n, None)) \<and>
         (err \<noteq> Some io_EOF \<longrightarrow> readFullBuffer Read r buf = (mem, n, err)) \<and>
         (snd (snd (readFullBuffer Read r buf)) = None \<longrightarrow> err = None \<or> err = Some io_EOF)"
  using assms by (simp add: readFullBuffer_def)

theorem readFullBuffer_EOF_is_nil_witness:
  "readFullBuffer (\<lambda>r buf. ((r, buf), 0, Some io_EOF)) () [] = (((), []), 0, None) \<and>
   readFullBuffer (\<lambda>r buf. ((r, buf), 0, Some (Foreign 9 ''read: connection reset'')))
       () [0, 0]
     = (((), [0, 0]), 0, Some (Foreign 9 ''read: connection reset''))"
proof -
  have ne: "Foreign 9 ''read: connection reset'' \<noteq> io_EOF"
    by (simp add: io_EOF_def errors_New_def)
  show ?thesis
    using ne
      readFullBuffer_EOF_is_nil
        [of "\<lambda>r buf. ((r, buf), 0, Some io_EOF)" "()" "[]" "((), [])" 0 "Some io_EOF"]
      readFullBuffer_EOF_is_nil
        [of "\<lambda>r buf. ((r, buf), 0, Some (Foreign 9 ''read: connection reset''))"
          "()" "[0, 0]" "((), [0, 0])" 0 "Some (Foreign 9 ''read: connection reset'')"]
    by simp
qed

text \<open>
  C7. The error of \<^verbatim>\<open>openDbErr\<close> is equal, under \<^verbatim>\<open>==\<close>, to the sentinel \<^verbatim>\<open>sql.ErrNoRows\<close>,
  so Demo 7 takes its branch and prints the no-rows line.
\<close>

theorem openDbErr_is_ErrNoRows:
  "openDbErr = Some sql_ErrNoRows \<and> demo7 = [''No rows found'']"
  by (simp add: demo7_def openDbErr_def)

text \<open>
  C10. In \<^verbatim>\<open>customOperation\<close> the call \<^verbatim>\<open>err.Error()\<close> of the substring check has no nil
  guard. When the open succeeds and the read returns a nil error the function panics,
  and the program ends with status 2; this is the only way it panics. When the read
  error is \<^verbatim>\<open>io.EOF\<close> the check runs and the function returns nil; any other read error
  leaves through the return before the check.
\<close>

theorem customOperation_nil_read_error_panics:
  "fst (customOperation (Opened (n, None)) h) = Panicked \<and>
   exit_status (main (Opened (n, None))) = 2 \<and>
   (fst (customOperation fs h) = Panicked \<longrightarrow> (\<exists>k. fs = Opened (k, None))) \<and>
   fst (customOperation (Opened (n, Some io_EOF)) h) = Returned None \<and>
   (err \<noteq> io_EOF \<longrightarrow>
      fst (customOperation (Opened (n, Some err)) h) =
        Returned (Some (WrapError h (''could not read file: '' @ Error err) (Some err))))"
  using customOperation_Panicked_iff [of fs h]
  by (simp add: customOperation_nil customOperation_EOF customOperation_other
      main_def run_demos_value demo8_nil)

theorem customOperation_nil_read_error_panics_witness:
  "fst (customOperation (Opened (5, None)) 12) = Panicked \<and>
   exit_status (main (Opened (5, None))) = 2 \<and>
   fst (customOperation (Opened (0, Some io_EOF)) 12) = Returned None \<and>
   fst (customOperation
          (Opened (0, Some (Foreign 9 ''read nonexistent.txt: is a directory''))) 12) =
     Returned (Some (WrapError 12 ''could not read file: read nonexistent.txt: is a directory''
       (Some (Foreign 9 ''read nonexistent.txt: is a directory''))))"
proof -
  have ne: "Foreign 9 ''read nonexistent.txt: is a directory'' \<noteq> io_EOF"
    by (simp add: io_EOF_def errors_New_def)
  show ?thesis
    using ne
      customOperation_nil_read_error_panics
        [of 5 12 "Opened (5, None)" "Foreign 9 ''read nonexistent.txt: is a directory''"]
      customOperation_nil_read_error_panics
        [of 0 12 "Opened (5, None)" "Foreign 9 ''read nonexistent.txt: is a directory''"]
    by simp
qed

section \<open>Properties of the demonstrations\<close>

text \<open>
  C2. Demo 5 builds \<open>wrappedErr\<close> and \<open>properlyWrappedErr\<close> from \<open>inputErr\<close> with the same
  format, \<^verbatim>\<open>"operation failed: %w"\<close>: the cause is recovered from both, by \<^verbatim>\<open>errors.Unwrap\<close>
  and by \<^verbatim>\<open>errors.Is\<close>, and both render the same text. The source marks the first as built
  without \<^verbatim>\<open>%w\<close>; in the code neither is.
\<close>

theorem demo5_both_errors_keep_cause:
  "(case demo5_errs h of
      ((inputErr, wrappedErr, properlyWrappedErr), h') \<Rightarrow>
        errors_Unwrap wrappedErr = Some inputErr \<and>
        errors_Unwrap properlyWrappedErr = Some inputErr \<and>
        errors_Is (Some wrappedErr) (Some inputErr) \<and>
        errors_Is (Some properlyWrappedErr) (Some inputErr) \<and>
        Error wrappedErr = Error properlyWrappedErr)"
  by (simp add: demo5_errs_value errors_Is_def)

text \<open>
  What the format \<^verbatim>\<open>"operation failed: %v"\<close> would build from the same \<open>inputErr\<close>: an
  error with the same text from which \<open>inputErr\<close> is not recovered.
\<close>

lemma Errorf_v_loses_cause:
  "(case errors_New ''input validation failed'' h of
      (inputErr, h1) \<Rightarrow>
        Error (fst (fmt_Errorf ''operation failed: %v'' [Some inputErr] h1)) =
          ''operation failed: input validation failed'' \<and>
        errors_Unwrap (fst (fmt_Errorf ''operation failed: %v'' [Some inputErr] h1)) = None \<and>
        \<not> errors_Is (Some (fst (fmt_Errorf ''operation failed: %v'' [Some inputErr] h1)))
             (Some inputErr))"
  by (simp add: errors_New_def Errorf_operation_v errors_Is_def)

text \<open>
  C3. In Demo 3 the error of \<^verbatim>\<open>processData\<close> is equal neither to \<^verbatim>\<open>ErrInvalidInput\<close> nor
  to \<^verbatim>\<open>ErrTimeout\<close>, so the \<^verbatim>\<open>switch\<close> takes its default branch and prints the
  unknown-error line, although \<^verbatim>\<open>errors.Is\<close> finds \<^verbatim>\<open>ErrInvalidInput\<close> inside it.
\<close>

theorem demo3_takes_default_branch:
  "fst (demo3 h) = [''Unknown error''] \<and>
   fst (processData h) \<noteq> Some ErrInvalidInput \<and>
   fst (processData h) \<noteq> Some ErrTimeout \<and>
   errors_Is (fst (processData h)) (Some ErrInvalidInput) \<and>
   fst (run_demos fs) ! 2 = [''Unknown error'']"
proof -
  have sw: "fst (demo3 h) = [''Unknown error'']"
    by (simp add: demo3_value)
  have ne: "fst (processData h) \<noteq> Some ErrInvalidInput \<and> fst (processData h) \<noteq> Some ErrTimeout"
    by (simp add: processData_value) (simp add: ErrInvalidInput_def ErrTimeout_def errors_New_def)
  have inside: "errors_Is (fst (processData h)) (Some ErrInvalidInput)"
    by (simp add: processData_value errors_Is_def)
      (simp add: ErrInvalidInput_def errors_New_def)
  have run: "fst (run_demos fs) ! 2 = [''Unknown error'']"
    by (cases "demo8 fs 12") (simp_all add: run_demos_value)
  show ?thesis
    using sw ne inside run by simp
qed

text \<open>
  C4. The error \<open>combinedErr\<close> of Demo 6 exposes both causes: its \<^verbatim>\<open>Unwrap() []error\<close> is
  \<open>err1\<close> then \<open>err2\<close>, \<^verbatim>\<open>errors.Is\<close> finds each, and the walk visits \<open>combinedErr\<close>,
  \<open>err1\<close>, \<open>err2\<close> in this order; the two causes are different errors.
\<close>

theorem demo6_exposes_both_causes_in_order:
  "(case demo6_errs h of
      ((err1, err2, combinedErr), h') \<Rightarrow>
        Unwrap_errs combinedErr = [err1, err2] \<and>
        traversal combinedErr = [combinedErr, err1, err2] \<and>
        errors_Is (Some combinedErr) (Some err1) \<and>
        errors_Is (Some combinedErr) (Some err2) \<and>
        err1 \<noteq> err2)"
  by (simp add: demo6_errs_value errors_Is_def)

section \<open>Properties of a run\<close>

text \<open>
  C8. The program takes no input, and the path it opens is a nonexistent one, so
  \<^verbatim>\<open>os.Open("nonexistent.txt")\<close> fails. Whatever the error of the failing open, the run
  has exactly eight outcomes, one per demonstration, in the order 1 to 8, and \<^verbatim>\<open>main\<close>
  returns, so the exit status is 0. The outcomes are given line by line: eleven lines,
  the one of Demo 8 carrying the text of the open error.
\<close>

theorem main_eight_outcomes_when_open_fails:
  "run_demos (OpenFailed err) =
     ([[''Invalid input detected'', ''Invalid input detected (correctly checked)''],
       [''Not found error: document'', ''Not found error (correctly checked): document''],
       [''Unknown error''],
       [''Other error type''],
       [''operation failed: input validation failed'',
        ''operation failed: input validation failed''],
       [''multiple errors: first error and second error''],
       [''No rows found''],
       [''Custom operation failed: could not open file: '' @ Error err]], False) \<and>
   numbered_outcomes (OpenFailed err) = [1, 2, 3, 4, 5, 6, 7, 8] \<and>
   stdout (main (OpenFailed err)) = concat (fst (run_demos (OpenFailed err))) \<and>
   length (stdout (main (OpenFailed err))) = 11 \<and>
   exit_status (main (OpenFailed err)) = 0"
  by (simp add: main_def numbered_outcomes_def run_demos_value demo8_OpenFailed)

text \<open>
  C9. The run is a function of what the file system answers and of nothing else. The
  ten lines of Demos 1 to 7 are the same in every run; and any two runs in which the
  read-only open of Demo 8 fails in the same way (errors of the same text, at whatever
  addresses) print the same lines and end with the same status.
\<close>

theorem main_output_determined_by_open_error:
  "take 10 (stdout (main fs)) =
     [''Invalid input detected'', ''Invalid input detected (correctly checked)'',
      ''Not found error: document'', ''Not found error (correctly checked): document'',
      ''Unknown error'',
      ''Other error type'',
      ''operation failed: input validation failed'',
      ''operation failed: input validation failed'',
      ''multiple errors: first error and second error'',
      ''No rows found''] \<and>
   (Error e1 = Error e2 \<longrightarrow> main (OpenFailed e1) = main (OpenFailed e2))"
proof -
  have "take 10 (stdout (main fs)) =
     [''Invalid input detected'', ''Invalid input detected (correctly checked)'',
      ''Not found error: document'', ''Not found error (correctly checked): document'',
      ''Unknown error'',
      ''Other error type'',
      ''operation failed: input validation failed'',
      ''operation failed: input validation failed'',
      ''multiple errors: first error and second error'',
      ''No rows found'']"
    by (cases "demo8 fs 12") (simp_all add: main_def run_demos_value)
  moreover have "Error e1 = Error e2 \<longrightarrow> main (OpenFailed e1) = main (OpenFailed e2)"
    by (simp add: main_def run_demos_value demo8_OpenFailed)
  ultimately show ?thesis by simp
qed

theorem main_output_determined_by_open_error_witness:
  "main (OpenFailed (Foreign 100 ''open nonexistent.txt: no such file or directory'')) =
   main (OpenFailed (Foreign 200 ''open nonexistent.txt: no such file or directory''))"
  using main_output_determined_by_open_error
    [of "Opened (0, None)" "Foreign 100 ''open nonexistent.txt: no such file or directory''"
      "Foreign 200 ''open nonexistent.txt: no such file or directory''"]
  by simp

end
